theory Spec2Isabelle
  imports Main "HOL-Library.Sublist"
begin

section \<open>Values shared by the controller and its collaborators\<close>

text \<open>
  Strings are byte lists: a JavaScript string is represented by its UTF-8 encoding, which is
  what the URL serialisers of the platform work on.

  A thrown value is described by what \<^verbatim>\<open>instanceof\<close> can observe of it (the classes on
  its prototype chain) and by a detail string standing for everything else it carries
  (message, stack, payload). A thrown primitive has an empty chain.
\<close>

datatype js_class =
    MissingOAuthParamsError
  | BigCommerceTokenExchangeError
  | TypeError
  | OtherClass string

record thrown =
  proto_chain :: "js_class list"
  detail :: string

definition instanceof :: "thrown \<Rightarrow> js_class \<Rightarrow> bool" where
  "instanceof err c = (c \<in> set (proto_chain err))"

text \<open>\<^verbatim>\<open>new MissingOAuthParamsError()\<close>: the class extends \<^verbatim>\<open>Error\<close> with a fixed message.\<close>

definition new_MissingOAuthParamsError :: thrown where
  "new_MissingOAuthParamsError =
     \<lparr>proto_chain = [MissingOAuthParamsError, OtherClass ''Error''],
      detail = ''Missing OAuth parameters: `code` and `context` are required.''\<rparr>"

text \<open>The \<^verbatim>\<open>TypeError\<close> of the platform's URL constructor.\<close>

definition invalid_url_error :: thrown where
  "invalid_url_error = \<lparr>proto_chain = [TypeError, OtherClass ''Error''], detail = ''Invalid URL''\<rparr>"

text \<open>
  How a call ends. \<open>Unmodelled\<close> marks inputs of the platform's URL parser that lie outside
  the fragment modelled below: there the model says nothing about what the code does.
\<close>

datatype 'a completion = Returns 'a | Throws thrown | Unmodelled

section \<open>Request, use case and controller data\<close>

text \<open>
  Of a \<^verbatim>\<open>NextRequest\<close> the controller reads \<^verbatim>\<open>new URL(req.url).searchParams\<close> (the
  decoded name/value pairs of the query string, in order; \<^verbatim>\<open>req.url\<close> is always a valid
  absolute URL) and \<^verbatim>\<open>req.headers.get\<close> (a lookup by lower-case header name).
\<close>

record NextRequest =
  searchParams :: "(string \<times> string) list"
  headers :: "string \<rightharpoonup> string"

text \<open>\<^verbatim>\<open>URLSearchParams.get\<close>: the value of the first pair with the given name.\<close>

definition searchParams_get :: "(string \<times> string) list \<Rightarrow> string \<Rightarrow> string option" where
  "searchParams_get ps name = map_of ps name"

text \<open>The nullish coalescing operator \<^verbatim>\<open>??\<close>: only an absent value takes the default.\<close>

definition nullish :: "'a option \<Rightarrow> 'a \<Rightarrow> 'a" where
  "nullish v d = (case v of None \<Rightarrow> d | Some x \<Rightarrow> x)"

text \<open>The object handed to \<^verbatim>\<open>installApp.execute\<close> (fields prefixed with \<open>p_\<close>).\<close>

record InstallParams =
  p_code :: string
  p_context :: string
  p_scope :: string
  p_redirectUri :: string

text \<open>
  The installation use case is external: \<^verbatim>\<open>execute\<close> is any function that, from the
  parameters and the state \<open>'w\<close> of the outside world, either completes (\<open>None\<close>) or throws
  (\<open>Some err\<close>), and leaves a new outside state. Its return value is not used by the controller.
\<close>

type_synonym 'w InstallAppUseCase = "InstallParams \<Rightarrow> 'w \<Rightarrow> thrown option \<times> 'w"

record 'w InstallHandlerConfig =
  cfg_installApp :: "'w InstallAppUseCase"
  cfg_redirectUri :: string
  cfg_successPath :: "string option"
  cfg_errorPath :: "string option"

record 'w InstallController =
  installApp :: "'w InstallAppUseCase"
  redirectUri :: string
  successPath :: string
  errorPath :: string

datatype InstallStatus = success | error

text \<open>\<^verbatim>\<open>InstallResult\<close> (fields prefixed with \<open>r_\<close>); an optional field is \<open>None\<close> when not set.\<close>

record InstallResult =
  r_status :: InstallStatus
  r_context :: "string option"
  r_errorCode :: "string option"

text \<open>
  What a run does besides returning: the calls of \<^verbatim>\<open>installApp.execute\<close> (always with the
  options object \<^verbatim>\<open>{}\<close>) and the values written with \<^verbatim>\<open>console.log\<close>, in order.
\<close>

datatype event = Execute InstallParams | ConsoleLog thrown

text \<open>
  The state a call of the handler runs in: the controller object, the outside world of the use
  case, and the events so far.
\<close>

record 'w sys =
  this :: "'w InstallController"
  world :: "'w"
  trace :: "event list"

fun execute_calls :: "event list \<Rightarrow> InstallParams list" where
  "execute_calls [] = []"
| "execute_calls (Execute p # es) = p # execute_calls es"
| "execute_calls (ConsoleLog e # es) = execute_calls es"

section \<open>Platform: form-urlencoded serialisation\<close>

definition ascii_digits :: string where
  "ascii_digits = ''0123456789''"

definition ascii_lower_alpha :: string where
  "ascii_lower_alpha = ''abcdefghijklmnopqrstuvwxyz''"

definition ascii_upper_alpha :: string where
  "ascii_upper_alpha = ''ABCDEFGHIJKLMNOPQRSTUVWXYZ''"

definition ascii_alphanumeric :: "char \<Rightarrow> bool" where
  "ascii_alphanumeric c = (c \<in> set (ascii_digits @ ascii_lower_alpha @ ascii_upper_alpha))"

definition hex_digit :: "nat \<Rightarrow> char" where
  "hex_digit n = ''0123456789ABCDEF'' ! (n mod 16)"

definition percent_encode_byte :: "char \<Rightarrow> string" where
  "percent_encode_byte c =
     [CHR ''%'', hex_digit ((of_char c :: nat) div 16), hex_digit ((of_char c :: nat) mod 16)]"

text \<open>
  \<^verbatim>\<open>URLSearchParams.prototype.toString\<close> is the application/x-www-form-urlencoded
  serialiser: of the UTF-8 bytes of a name or value, ASCII letters and digits and the four
  characters \<^verbatim>\<open>* - . _\<close> stay, a space becomes \<^verbatim>\<open>+\<close>, and every other byte is
  percent-encoded with upper-case hexadecimal digits; name and value are joined by \<^verbatim>\<open>=\<close>
  and the pairs by \<^verbatim>\<open>&\<close>.
\<close>

definition urlencoded_keep :: "char \<Rightarrow> bool" where
  "urlencoded_keep c = (ascii_alphanumeric c \<or> c \<in> set ''*-._'')"

definition urlencoded_byte :: "char \<Rightarrow> string" where
  "urlencoded_byte c =
     (if c = CHR '' '' then ''+''
      else if urlencoded_keep c then [c]
      else percent_encode_byte c)"

definition urlencoded_string :: "string \<Rightarrow> string" where
  "urlencoded_string s = concat (map urlencoded_byte s)"

fun join_with :: "string \<Rightarrow> string list \<Rightarrow> string" where
  "join_with sep [] = []"
| "join_with sep [x] = x"
| "join_with sep (x # y # ys) = x @ sep @ join_with sep (y # ys)"

definition URLSearchParams_toString :: "(string \<times> string) list \<Rightarrow> string" where
  "URLSearchParams_toString ps =
     join_with ''&'' (map (\<lambda>(n, v). urlencoded_string n @ ''='' @ urlencoded_string v) ps)"

section \<open>Platform: the URL constructor with a base\<close>

text \<open>
  \<^verbatim>\<open>new URL(input, base)\<close> follows the WHATWG URL standard. The model is exact where it
  answers \<open>Throws\<close> or \<open>Returns\<close> and answers \<open>Unmodelled\<close> elsewhere:

  \<^item> both strings first lose leading and trailing C0 controls and spaces and every tab, line
    feed and carriage return;
  \<^item> the base is parsed on its own: when it does not start with a scheme (an ASCII letter,
    then letters, digits, \<^verbatim>\<open>+ - .\<close>, then a colon) the parser fails and the constructor
    throws a \<^verbatim>\<open>TypeError\<close>;
  \<^item> a result is given when the base is \<^verbatim>\<open>http\<close> or \<^verbatim>\<open>https\<close>, two slashes, a
    host, and optionally a colon and a decimal port of at most 65535, where the host, once
    its ASCII letters are lower-cased, is either a domain (dot-separated non-empty labels of
    letters, digits and hyphens that start and end with a letter or digit, none starting
    with \<^verbatim>\<open>xn--\<close>, the last starting with a letter) or an IPv4 address in its serialised form (four decimal parts of at most 255
    without leading zeros); and the input is an absolute path (one leading slash, then
    neither a slash nor a backslash) of letters, digits and the punctuation
    \<^verbatim>\<open>_ . / - ! $ & ' ( ) * + , ; = : @ ~\<close> with no segment \<^verbatim>\<open>.\<close> or \<^verbatim>\<open>..\<close>,
    followed by an optional query and an optional fragment. Then the URL has the scheme of
    the base, its lower-cased host and its port (dropped when it is the default of the
    scheme), the path of the input as written, and the query and fragment of the input
    percent-encoded with the standard's special-query and fragment sets.
\<close>

record URL =
  url_scheme :: string
  url_host :: string
  url_port :: "nat option"
  url_pathname :: string
  url_query :: "string option"
  url_fragment :: "string option"

definition c0_control_or_space :: "char \<Rightarrow> bool" where
  "c0_control_or_space c = ((of_char c :: nat) \<le> 32)"

definition ascii_tab_or_newline :: "char \<Rightarrow> bool" where
  "ascii_tab_or_newline c = (c = CHR 0x09 \<or> c = CHR 0x0A \<or> c = CHR 0x0D)"

definition url_preprocess :: "string \<Rightarrow> string" where
  "url_preprocess s =
     filter (\<lambda>c. \<not> ascii_tab_or_newline c)
       (rev (dropWhile c0_control_or_space (rev (dropWhile c0_control_or_space s))))"

definition ascii_alpha :: "char \<Rightarrow> bool" where
  "ascii_alpha c = (c \<in> set (ascii_lower_alpha @ ascii_upper_alpha))"

definition scheme_char :: "char \<Rightarrow> bool" where
  "scheme_char c = (ascii_alphanumeric c \<or> c \<in> set ''+-.'')"

definition ascii_lowercase :: "char \<Rightarrow> char" where
  "ascii_lowercase c =
     (if c \<in> set ascii_upper_alpha then char_of ((of_char c :: nat) + 32) else c)"

text \<open>The scheme start and scheme states: the lower-cased scheme and what follows the colon.\<close>

definition parse_scheme :: "string \<Rightarrow> (string \<times> string) option" where
  "parse_scheme s =
     (case s of
        [] \<Rightarrow> None
      | c # _ \<Rightarrow>
          if \<not> ascii_alpha c then None
          else (case dropWhile scheme_char s of
                  [] \<Rightarrow> None
                | d # rest \<Rightarrow>
                    if d = CHR '':'' then Some (map ascii_lowercase (takeWhile scheme_char s), rest)
                    else None))"

text \<open>\<open>split_first c s\<close>: the part of \<open>s\<close> before the first \<open>c\<close>, and the part after it if any.\<close>

definition split_first :: "char \<Rightarrow> string \<Rightarrow> string \<times> string option" where
  "split_first c s =
     (takeWhile (\<lambda>x. x \<noteq> c) s,
      case dropWhile (\<lambda>x. x \<noteq> c) s of [] \<Rightarrow> None | _ # rest \<Rightarrow> Some rest)"

fun split_on :: "char \<Rightarrow> string \<Rightarrow> string list" where
  "split_on c [] = [[]]"
| "split_on c (x # xs) =
     (if x = c then [] # split_on c xs
      else (case split_on c xs of [] \<Rightarrow> [[x]] | seg # segs \<Rightarrow> (x # seg) # segs))"

definition plain_label :: "string \<Rightarrow> bool" where
  "plain_label l =
     (case l of
        [] \<Rightarrow> False
      | c # cs \<Rightarrow>
          c \<in> set (ascii_lower_alpha @ ascii_digits)
          \<and> last l \<in> set (ascii_lower_alpha @ ascii_digits)
          \<and> list_all (\<lambda>x. x \<in> set (ascii_lower_alpha @ ascii_digits @ ''-'')) l
          \<and> take 4 l \<noteq> ''xn--'')"

text \<open>
  A domain: plain labels, the last of which starts with a letter (so that it is not read as
  a number and the host not as an IPv4 address).
\<close>

definition plain_domain :: "string \<Rightarrow> bool" where
  "plain_domain h =
     (list_all plain_label (split_on CHR ''.'' h)
      \<and> (case last (split_on CHR ''.'' h) of
            [] \<Rightarrow> False
          | c # cs \<Rightarrow> c \<in> set ascii_lower_alpha))"

definition digit_value :: "char \<Rightarrow> nat" where
  "digit_value c = (of_char c :: nat) - 48"

definition decimal_value :: "string \<Rightarrow> nat" where
  "decimal_value ds = foldl (\<lambda>n c. 10 * n + digit_value c) 0 ds"

definition default_port :: "string \<Rightarrow> nat" where
  "default_port scheme = (if scheme = ''https'' then 443 else 80)"

text \<open>
  An IPv4 address as the serialiser writes it: four decimal parts of at most 255 without
  leading zeros.
\<close>

definition canonical_octet :: "string \<Rightarrow> bool" where
  "canonical_octet l =
     (list_all (\<lambda>c. c \<in> set ascii_digits) l
      \<and> (case l of [] \<Rightarrow> False | [c] \<Rightarrow> True | c # d # ds \<Rightarrow> c \<noteq> CHR ''0'')
      \<and> decimal_value l \<le> 255)"

definition plain_ipv4 :: "string \<Rightarrow> bool" where
  "plain_ipv4 h =
     (length (split_on CHR ''.'' h) = 4 \<and> list_all canonical_octet (split_on CHR ''.'' h))"

definition plain_host :: "string \<Rightarrow> bool" where
  "plain_host h = (plain_domain h \<or> plain_ipv4 h)"

fun decimal_string :: "nat \<Rightarrow> string" where
  "decimal_string n =
     (if n < 10 then [char_of (48 + n)]
      else decimal_string (n div 10) @ [char_of (48 + n mod 10)])"

declare decimal_string.simps [simp del]

text \<open>Punctuation that the path state of the parser keeps as written.\<close>

definition path_punctuation :: string where
  "path_punctuation = ''_./-!$&()*+,;=:@~'' @ [CHR 0x27]"

definition plain_path :: "string \<Rightarrow> bool" where
  "plain_path p =
     (case p of
        [] \<Rightarrow> False
      | c # cs \<Rightarrow>
          c = CHR ''/''
          \<and> (case cs of [] \<Rightarrow> True | d # _ \<Rightarrow> d \<noteq> CHR ''/'' \<and> d \<noteq> CHR 0x5C)
          \<and> list_all (\<lambda>x. ascii_alphanumeric x \<or> x \<in> set path_punctuation) p
          \<and> list_all (\<lambda>seg. seg \<noteq> ''.'' \<and> seg \<noteq> ''..'') (split_on CHR ''/'' p))"

definition c0_control_percent_encode :: "char \<Rightarrow> bool" where
  "c0_control_percent_encode c = ((of_char c :: nat) < 32 \<or> 126 < (of_char c :: nat))"

definition special_query_percent_encode :: "char \<Rightarrow> bool" where
  "special_query_percent_encode c =
     (c0_control_percent_encode c \<or> c \<in> set [CHR '' '', CHR 0x22, CHR ''#'', CHR ''<'', CHR ''>'', CHR 0x27])"

definition fragment_percent_encode :: "char \<Rightarrow> bool" where
  "fragment_percent_encode c =
     (c0_control_percent_encode c \<or> c \<in> set [CHR '' '', CHR 0x22, CHR ''<'', CHR ''>'', CHR 0x60])"

definition percent_encode_with :: "(char \<Rightarrow> bool) \<Rightarrow> string \<Rightarrow> string" where
  "percent_encode_with in_set s =
     concat (map (\<lambda>c. if in_set c then percent_encode_byte c else [c]) s)"

definition URL_new :: "string \<Rightarrow> string \<Rightarrow> URL completion" where
  "URL_new input base =
     (case parse_scheme (url_preprocess base) of
        None \<Rightarrow> Throws invalid_url_error
      | Some (scheme, rest) \<Rightarrow>
          let (authority, port) = split_first CHR '':'' (drop 2 rest);
              hostname = map ascii_lowercase authority;
              (before_hash, frag) = split_first CHR ''#'' (url_preprocess input);
              (path, query) = split_first CHR ''?'' before_hash
          in if (scheme = ''http'' \<or> scheme = ''https'')
                \<and> take 2 rest = ''//''
                \<and> plain_host hostname
                \<and> (case port of
                      None \<Rightarrow> True
                    | Some ds \<Rightarrow> ds \<noteq> [] \<and> list_all (\<lambda>c. c \<in> set ascii_digits) ds
                                \<and> decimal_value ds \<le> 65535)
                \<and> plain_path path
             then Returns
                    \<lparr>url_scheme = scheme,
                     url_host = hostname,
                     url_port =
                       (case port of
                          None \<Rightarrow> None
                        | Some ds \<Rightarrow>
                            if decimal_value ds = default_port scheme then None
                            else Some (decimal_value ds)),
                     url_pathname = path,
                     url_query = map_option (percent_encode_with special_query_percent_encode) query,
                     url_fragment = map_option (percent_encode_with fragment_percent_encode) frag\<rparr>
             else Unmodelled)"

text \<open>The URL serialiser (\<^verbatim>\<open>url.href\<close>, \<^verbatim>\<open>String(url)\<close>).\<close>

definition href :: "URL \<Rightarrow> string" where
  "href u =
     url_scheme u @ ''://'' @ url_host u
     @ (case url_port u of None \<Rightarrow> [] | Some p \<Rightarrow> '':'' @ decimal_string p)
     @ url_pathname u
     @ (case url_query u of None \<Rightarrow> [] | Some q \<Rightarrow> ''?'' @ q)
     @ (case url_fragment u of None \<Rightarrow> [] | Some f \<Rightarrow> ''#'' @ f)"

text \<open>
  \<^verbatim>\<open>NextResponse.redirect(url)\<close> with no second argument: status 307 and a
  \<^verbatim>\<open>Location\<close> header holding the serialised URL. The response keeps the URL record;
  \<open>location\<close> is the header value.
\<close>

record NextResponse =
  status :: nat
  redirect_url :: URL

definition NextResponse_redirect :: "URL \<Rightarrow> NextResponse" where
  "NextResponse_redirect u = \<lparr>status = 307, redirect_url = u\<rparr>"

definition location :: "NextResponse \<Rightarrow> string" where
  "location r = href (redirect_url r)"

section \<open>The installation controller\<close>

text \<open>The constructor: \<^verbatim>\<open>??\<close> gives both paths the default \<^verbatim>\<open>/auth/result\<close>.\<close>

definition InstallController_constructor :: "'w InstallHandlerConfig \<Rightarrow> 'w InstallController" where
  "InstallController_constructor config =
     \<lparr>installApp = cfg_installApp config,
      redirectUri = cfg_redirectUri config,
      successPath = nullish (cfg_successPath config) ''/auth/result'',
      errorPath = nullish (cfg_errorPath config) ''/auth/result''\<rparr>"

text \<open>
  \<^verbatim>\<open>getOAuthParams\<close>: the three query values, absent ones replaced by the empty string;
  an empty (falsy) code or context throws. The result is the triple (code, context, scope).
\<close>

definition getOAuthParams :: "NextRequest \<Rightarrow> thrown + (string \<times> string \<times> string)" where
  "getOAuthParams req =
     (let code = nullish (searchParams_get (searchParams req) ''code'') [];
          context = nullish (searchParams_get (searchParams req) ''context'') [];
          scope = nullish (searchParams_get (searchParams req) ''scope'') []
      in if code = [] \<or> context = [] then Inl new_MissingOAuthParamsError
         else Inr (code, context, scope))"

definition mapErrorToCode :: "thrown \<Rightarrow> string" where
  "mapErrorToCode err =
     (if instanceof err MissingOAuthParamsError then ''missing_params''
      else if instanceof err BigCommerceTokenExchangeError then ''token_exchange_failed''
      else ''unknown'')"

text \<open>The \<^verbatim>\<open>catch\<close> block of \<^verbatim>\<open>performInstall\<close>: log the value, classify it.\<close>

definition performInstall_catch :: "thrown \<Rightarrow> 'w sys \<Rightarrow> InstallResult \<times> 'w sys" where
  "performInstall_catch err s =
     (\<lparr>r_status = error, r_context = None, r_errorCode = Some (mapErrorToCode err)\<rparr>,
      s\<lparr>trace := trace s @ [ConsoleLog err]\<rparr>)"

definition performInstall :: "NextRequest \<Rightarrow> 'w sys \<Rightarrow> InstallResult \<times> 'w sys" where
  "performInstall req s =
     (case getOAuthParams req of
        Inl err \<Rightarrow> performInstall_catch err s
      | Inr (code, context, scope) \<Rightarrow>
          let params = \<lparr>p_code = code, p_context = context, p_scope = scope,
                        p_redirectUri = redirectUri (this s)\<rparr>;
              (thrown_value, w) = installApp (this s) params (world s);
              s1 = s\<lparr>world := w, trace := trace s @ [Execute params]\<rparr>
          in (case thrown_value of
                Some err \<Rightarrow> performInstall_catch err s1
              | None \<Rightarrow> (\<lparr>r_status = success, r_context = Some context, r_errorCode = None\<rparr>, s1)))"

definition getBaseUrl :: "NextRequest \<Rightarrow> string" where
  "getBaseUrl req =
     (let host = nullish (case headers req ''x-forwarded-host'' of
                            Some h \<Rightarrow> Some h
                          | None \<Rightarrow> headers req ''host'') ''localhost:3000'';
          protocol = nullish (headers req ''x-forwarded-proto'') ''http''
      in protocol @ ''://'' @ host)"

definition InstallStatus_string :: "InstallStatus \<Rightarrow> string" where
  "InstallStatus_string st = (case st of success \<Rightarrow> ''success'' | error \<Rightarrow> ''error'')"

text \<open>A string-valued optional field is truthy when it is set and not empty.\<close>

definition truthy :: "string option \<Rightarrow> bool" where
  "truthy v = (case v of None \<Rightarrow> False | Some x \<Rightarrow> x \<noteq> [])"

text \<open>\<^verbatim>\<open>...(v ? { name: v } : {})\<close>: one entry when the value is truthy, none otherwise.\<close>

definition spread_if_truthy :: "string \<Rightarrow> string option \<Rightarrow> (string \<times> string) list" where
  "spread_if_truthy name v =
     (case v of None \<Rightarrow> [] | Some x \<Rightarrow> if truthy v then [(name, x)] else [])"

text \<open>
  The \<^verbatim>\<open>search\<close> object of \<^verbatim>\<open>buildRedirectResponse\<close>: the status, then the context
  and the error code when truthy, in the order of the object literal.
\<close>

definition redirect_search :: "InstallResult \<Rightarrow> (string \<times> string) list" where
  "redirect_search outcome =
     [(''status'', InstallStatus_string (r_status outcome))]
     @ spread_if_truthy ''context'' (r_context outcome)
     @ spread_if_truthy ''code'' (r_errorCode outcome)"

definition buildRedirectResponse ::
  "'w InstallController \<Rightarrow> NextRequest \<Rightarrow> InstallResult \<Rightarrow> NextResponse completion" where
  "buildRedirectResponse c request outcome =
     (let baseUrl = getBaseUrl request;
          targetPath = (if r_status outcome = success then successPath c else errorPath c);
          search = redirect_search outcome
      in case URL_new (targetPath @ ''?'' @ URLSearchParams_toString search) baseUrl of
           Returns u \<Rightarrow> Returns (NextResponse_redirect u)
         | Throws err \<Rightarrow> Throws err
         | Unmodelled \<Rightarrow> Unmodelled)"

definition handle :: "NextRequest \<Rightarrow> 'w sys \<Rightarrow> NextResponse completion \<times> 'w sys" where
  "handle request s =
     (let (outcome, s1) = performInstall request s
      in (buildRedirectResponse (this s1) request outcome, s1))"

text \<open>
  \<^verbatim>\<open>InstallController.create\<close>: a fresh controller with its bound \<^verbatim>\<open>handle\<close>; the
  handler is called in an outside world and with the events so far.
\<close>

definition create ::
  "'w InstallHandlerConfig \<Rightarrow> NextRequest \<Rightarrow> 'w \<Rightarrow> event list \<Rightarrow> NextResponse completion \<times> 'w sys" where
  "create config request w tr =
     handle request \<lparr>this = InstallController_constructor config, world = w, trace = tr\<rparr>"

section \<open>The directory copy of the command-line tool\<close>

text \<open>
  The file system as \<^verbatim>\<open>node:fs\<close> shows it to \<^verbatim>\<open>copyDirectory\<close>: a store from resolved
  paths (lists of names below the root \<open>[]\<close>) to nodes. A file holds its contents, a
  directory the names \<^verbatim>\<open>readdirSync\<close> lists, in that order. \<^verbatim>\<open>path.join(dir, entry)\<close>
  for a listed name is \<open>dir @ [entry]\<close>. Symbolic links are not modelled.
\<close>

type_synonym path = "string list"

datatype node = File string | Dir "string list"

type_synonym filesystem = "path \<rightharpoonup> node"

datatype fs_error = ENOENT | ENOTDIR | EEXIST | EISDIR

text \<open>
  The error for a path at which nothing exists: \<^verbatim>\<open>ENOTDIR\<close> when the path leads through
  a regular file, \<^verbatim>\<open>ENOENT\<close> otherwise.
\<close>

definition absent_error :: "filesystem \<Rightarrow> path \<Rightarrow> fs_error" where
  "absent_error fs p =
     (if list_ex (\<lambda>q. case fs q of Some (File c) \<Rightarrow> True | _ \<Rightarrow> False) (prefixes p)
      then ENOTDIR else ENOENT)"

definition existsSync :: "filesystem \<Rightarrow> path \<Rightarrow> bool" where
  "existsSync fs p = (fs p \<noteq> None)"

text \<open>
  Creating \<open>p\<close> and its missing ancestors: an existing directory is left alone, a file on the
  way ends the call with \<^verbatim>\<open>ENOTDIR\<close>, and a created directory is entered in its parent.
\<close>

fun ensure_dirs :: "path \<Rightarrow> filesystem \<Rightarrow> fs_error + filesystem" where
  "ensure_dirs p fs =
     (case fs p of
        Some (Dir es) \<Rightarrow> Inr fs
      | Some (File c) \<Rightarrow> Inl ENOTDIR
      | None \<Rightarrow>
          if p = [] then Inl ENOENT
          else (case ensure_dirs (butlast p) fs of
                  Inl e \<Rightarrow> Inl e
                | Inr fs1 \<Rightarrow>
                    (case fs1 (butlast p) of
                       Some (Dir es) \<Rightarrow> Inr (fs1(butlast p \<mapsto> Dir (es @ [last p]), p \<mapsto> Dir []))
                     | Some (File c) \<Rightarrow> Inl ENOTDIR
                     | None \<Rightarrow> Inl ENOENT)))"

declare ensure_dirs.simps [simp del]

text \<open>\<^verbatim>\<open>fs.mkdirSync(p, { recursive: true })\<close>: \<^verbatim>\<open>EEXIST\<close> when \<open>p\<close> itself is a file.\<close>

definition mkdirSync_recursive :: "path \<Rightarrow> filesystem \<Rightarrow> fs_error + filesystem" where
  "mkdirSync_recursive p fs =
     (case fs p of Some (File c) \<Rightarrow> Inl EEXIST | _ \<Rightarrow> ensure_dirs p fs)"

definition readdirSync :: "filesystem \<Rightarrow> path \<Rightarrow> fs_error + string list" where
  "readdirSync fs p =
     (case fs p of
        Some (Dir es) \<Rightarrow> Inr es
      | Some (File c) \<Rightarrow> Inl ENOTDIR
      | None \<Rightarrow> Inl (absent_error fs p))"

text \<open>\<^verbatim>\<open>fs.statSync(p).isDirectory()\<close>.\<close>

definition statSync_isDirectory :: "filesystem \<Rightarrow> path \<Rightarrow> fs_error + bool" where
  "statSync_isDirectory fs p =
     (case fs p of
        Some (Dir es) \<Rightarrow> Inr True
      | Some (File c) \<Rightarrow> Inr False
      | None \<Rightarrow> Inl (absent_error fs p))"

text \<open>
  \<^verbatim>\<open>fs.copyFileSync(from, to)\<close> with the default mode: an existing file is overwritten, a
  new one is entered in its directory.
\<close>

definition copyFileSync :: "path \<Rightarrow> path \<Rightarrow> filesystem \<Rightarrow> fs_error + filesystem" where
  "copyFileSync from to fs =
     (case fs from of
        None \<Rightarrow> Inl (absent_error fs from)
      | Some (Dir es) \<Rightarrow> Inl EISDIR
      | Some (File c) \<Rightarrow>
          (case fs to of
             Some (Dir es) \<Rightarrow> Inl EISDIR
           | Some (File old) \<Rightarrow> Inr (fs(to \<mapsto> File c))
           | None \<Rightarrow>
               (case fs (butlast to) of
                  Some (Dir es) \<Rightarrow> Inr (fs(butlast to \<mapsto> Dir (es @ [last to]), to \<mapsto> File c))
                | Some (File old) \<Rightarrow> Inl ENOTDIR
                | None \<Rightarrow> Inl (absent_error fs to))))"

text \<open>
  \<^verbatim>\<open>copyDirectory\<close>. The recursion follows the directories it finds, and nothing bounds it
  when the destination lies inside the source, so the model carries fuel: the number of
  directory levels it may still descend. \<open>None\<close> is fuel exhausted, \<open>Some (Inl e)\<close> a thrown
  file-system error, \<open>Some (Inr fs)\<close> the file system after a completed copy.
  \<open>copyEntries\<close> is the \<^verbatim>\<open>for\<close> loop over the names read once, before the loop.
\<close>

fun copyDirectory :: "nat \<Rightarrow> path \<Rightarrow> path \<Rightarrow> filesystem \<Rightarrow> (fs_error + filesystem) option"
  and copyEntries :: "nat \<Rightarrow> path \<Rightarrow> path \<Rightarrow> string list \<Rightarrow> filesystem \<Rightarrow> (fs_error + filesystem) option"
  where
  "copyDirectory n src dest fs =
     (case (if \<not> existsSync fs dest then mkdirSync_recursive dest fs else Inr fs) of
        Inl e \<Rightarrow> Some (Inl e)
      | Inr fs1 \<Rightarrow>
          (case readdirSync fs1 src of
             Inl e \<Rightarrow> Some (Inl e)
           | Inr entries \<Rightarrow> copyEntries n src dest entries fs1))"
| "copyEntries n src dest [] fs = Some (Inr fs)"
| "copyEntries n src dest (entry # entries) fs =
     (case statSync_isDirectory fs (src @ [entry]) of
        Inl e \<Rightarrow> Some (Inl e)
      | Inr isDirectory \<Rightarrow>
          (case (if isDirectory
                 then (case n of
                         0 \<Rightarrow> None
                       | Suc m \<Rightarrow> copyDirectory m (src @ [entry]) (dest @ [entry]) fs)
                 else Some (copyFileSync (src @ [entry]) (dest @ [entry]) fs)) of
             None \<Rightarrow> None
           | Some (Inl e) \<Rightarrow> Some (Inl e)
           | Some (Inr fs') \<Rightarrow> copyEntries n src dest entries fs'))"


subsection \<open>Predicates used to state the properties of the copy\<close>







definition test_fs :: filesystem where
  "test_fs = [[] \<mapsto> Dir [''tmp''],
              [''tmp''] \<mapsto> Dir [''src'', ''blocker''],
              [''tmp'', ''blocker''] \<mapsto> File ''not a directory'',
              [''tmp'', ''src''] \<mapsto> Dir [''file.txt'', ''nested''],
              [''tmp'', ''src'', ''file.txt''] \<mapsto> File ''root file'',
              [''tmp'', ''src'', ''nested''] \<mapsto> Dir [''inner.txt''],
              [''tmp'', ''src'', ''nested'', ''inner.txt''] \<mapsto> File ''nested file'']"


section \<open>Definitions used to state the properties\<close>

text \<open>The base URL as the specification words it.\<close>

definition spec_base_url :: "string option \<Rightarrow> string option \<Rightarrow> string option \<Rightarrow> string" where
  "spec_base_url forwarded_host host_header forwarded_proto =
     (case forwarded_proto of Some p \<Rightarrow> p | None \<Rightarrow> ''http'')
     @ ''://''
     @ (case forwarded_host of
          Some h \<Rightarrow> h
        | None \<Rightarrow> (case host_header of Some h \<Rightarrow> h | None \<Rightarrow> ''localhost:3000''))"

text \<open>Concrete collaborators, configurations and requests.\<close>

definition example_installApp :: "nat InstallAppUseCase" where
  "example_installApp params w = (None, Suc w)"

definition example_token_error :: "string \<Rightarrow> thrown" where
  "example_token_error d =
     \<lparr>proto_chain = [BigCommerceTokenExchangeError, OtherClass ''Error''], detail = d\<rparr>"

definition example_failing_installApp :: "string \<Rightarrow> nat InstallAppUseCase" where
  "example_failing_installApp d params w =
     (Some (example_token_error d), Suc w)"

definition example_config :: "nat InstallHandlerConfig" where
  "example_config =
     \<lparr>cfg_installApp = example_installApp, cfg_redirectUri = ''https://app.example.com/auth'',
      cfg_successPath = None, cfg_errorPath = None\<rparr>"

definition example_request :: NextRequest where
  "example_request =
     \<lparr>searchParams = [(''code'', ''abc123''), (''context'', ''stores/xyz''),
                      (''scope'', ''store_v2_products'')],
      headers = [''x-forwarded-host'' \<mapsto> ''public.example.com'', ''x-forwarded-proto'' \<mapsto> ''https'']\<rparr>"

definition example_missing_request :: NextRequest where
  "example_missing_request =
     \<lparr>searchParams = [(''scope'', ''store_v2_products'')],
      headers = [''host'' \<mapsto> ''shop.example.com'']\<rparr>"

definition example_proxied_request :: NextRequest where
  "example_proxied_request =
     \<lparr>searchParams = [(''code'', ''abc123''), (''context'', ''stores/xyz'')],
      headers = [''host'' \<mapsto> ''shop.example.com'', ''x-forwarded-proto'' \<mapsto> ''https,http'']\<rparr>"

definition example_missing_proxied_request :: NextRequest where
  "example_missing_proxied_request =
     \<lparr>searchParams = [(''scope'', ''store_v2_products'')],
      headers = [''host'' \<mapsto> ''shop.example.com'', ''x-forwarded-proto'' \<mapsto> ''https,http'']\<rparr>"

definition example_sys :: "nat sys" where
  "example_sys = \<lparr>this = InstallController_constructor example_config, world = 0, trace = []\<rparr>"

definition example_failing_sys :: "string \<Rightarrow> nat sys" where
  "example_failing_sys d =
     \<lparr>this = InstallController_constructor
               (example_config\<lparr>cfg_installApp := example_failing_installApp d\<rparr>),
      world = 0, trace = []\<rparr>"

text \<open>A configured path is a path when it has neither a query nor a fragment delimiter.\<close>

definition is_path :: "string \<Rightarrow> bool" where
  "is_path p = (CHR ''?'' \<notin> set p \<and> CHR ''#'' \<notin> set p)"

text \<open>The characters the form-urlencoded serialiser can produce.\<close>

definition query_safe :: "char \<Rightarrow> bool" where
  "query_safe c = (ascii_alphanumeric c \<or> c \<in> set ''*-._+%&='')"

text \<open>Characters that the preprocessing of the URL parser leaves alone.\<close>

definition url_clean :: "char \<Rightarrow> bool" where
  "url_clean c = (\<not> c0_control_or_space c \<and> \<not> ascii_tab_or_newline c)"

section \<open>The controller: properties\<close>

lemmas char_class_defs =
  ascii_alphanumeric_def ascii_digits_def ascii_lower_alpha_def ascii_upper_alpha_def

lemma query_safe_facts:
  assumes "query_safe c"
  shows "\<not> c0_control_or_space c" and "\<not> ascii_tab_or_newline c"
    and "c \<noteq> CHR ''#''" and "c \<noteq> CHR ''?''" and "\<not> special_query_percent_encode c"
  using assms
  by (auto simp: query_safe_def char_class_defs c0_control_or_space_def ascii_tab_or_newline_def
      special_query_percent_encode_def c0_control_percent_encode_def)

lemma hex_digit_safe: "query_safe (hex_digit n)"
proof -
  have "n mod 16 \<in> {0,1,2,3,4,5,6,7,8,9,10,11,12,13,14,15}" by (simp; presburger)
  then show ?thesis
    by (auto simp: hex_digit_def query_safe_def char_class_defs)
qed

lemma urlencoded_byte_safe: "list_all query_safe (urlencoded_byte c)"
proof -
  have "query_safe CHR ''+''" "query_safe CHR ''%''"
    by (simp_all add: query_safe_def)
  moreover have "urlencoded_keep c \<Longrightarrow> query_safe c"
    by (auto simp: urlencoded_keep_def query_safe_def)
  ultimately show ?thesis
    by (simp add: urlencoded_byte_def percent_encode_byte_def hex_digit_safe)
qed

lemma urlencoded_string_safe: "list_all query_safe (urlencoded_string s)"
  by (induction s) (simp_all add: urlencoded_string_def urlencoded_byte_safe)

lemma split_first_absent: "c \<notin> set s \<Longrightarrow> split_first c s = (s, None)"
  by (induction s) (auto simp: split_first_def)

lemma split_first_at: "c \<notin> set a \<Longrightarrow> split_first c (a @ c # b) = (a, Some b)"
  by (induction a) (auto simp: split_first_def)

lemma percent_encode_with_id:
  "list_all (\<lambda>c. \<not> in_set c) s \<Longrightarrow> percent_encode_with in_set s = s"
  by (induction s) (simp_all add: percent_encode_with_def)

lemma url_preprocess_query:
  assumes "q \<noteq> []" and "list_all query_safe q"
  shows "url_preprocess (p @ CHR ''?'' # q) =
           filter (\<lambda>c. \<not> ascii_tab_or_newline c) (dropWhile c0_control_or_space p) @ CHR ''?'' # q"
proof -
  have q1: "list_all (\<lambda>c. \<not> ascii_tab_or_newline c) q"
    using assms(2) by (induction q) (simp_all add: query_safe_facts)
  have "query_safe (last q)"
    using assms by (induction q) (auto split: if_splits)
  then have l: "\<not> c0_control_or_space (last q)"
    by (rule query_safe_facts)
  have qm: "\<not> c0_control_or_space CHR ''?''" "\<not> ascii_tab_or_newline CHR ''?''"
    by (simp_all add: c0_control_or_space_def ascii_tab_or_newline_def)
  have d: "dropWhile c0_control_or_space (p @ CHR ''?'' # q)
             = dropWhile c0_control_or_space p @ CHR ''?'' # q"
    using qm(1) by (rule dropWhile_append3)
  have "dropWhile c0_control_or_space (rev q @ rev (dropWhile c0_control_or_space p @ [CHR ''?'']))
          = rev q @ rev (dropWhile c0_control_or_space p @ [CHR ''?''])"
    using assms(1) l by (cases q rule: rev_cases) simp_all
  then have r: "rev (dropWhile c0_control_or_space
                   (rev (dropWhile c0_control_or_space p @ CHR ''?'' # q)))
                = dropWhile c0_control_or_space p @ CHR ''?'' # q"
    by simp
  have f: "filter (\<lambda>c. \<not> ascii_tab_or_newline c) q = q"
    using q1 by (induction q) simp_all
  show ?thesis
    unfolding url_preprocess_def d using r f qm(2) by simp
qed

lemma URL_new_query:
  assumes "is_path p" and "q \<noteq> []" and "list_all query_safe q"
    and "URL_new (p @ ''?'' @ q) base = Returns u"
  shows "url_query u = Some q \<and> url_fragment u = None"
proof -
  let ?p = "filter (\<lambda>c. \<not> ascii_tab_or_newline c) (dropWhile c0_control_or_space p)"
  have pre: "url_preprocess (p @ CHR ''?'' # q) = ?p @ CHR ''?'' # q"
    using assms(2,3) by (rule url_preprocess_query)
  have sub: "set ?p \<subseteq> set p"
    using set_dropWhileD by fastforce
  have nohash: "CHR ''#'' \<notin> set (?p @ CHR ''?'' # q)"
    using assms(1,3) sub query_safe_facts(3) by (auto simp: is_path_def list_all_iff)
  have noq: "CHR ''?'' \<notin> set ?p"
    using assms(1) sub by (auto simp: is_path_def)
  have enc: "percent_encode_with special_query_percent_encode q = q"
    using assms(3) by (intro percent_encode_with_id) (simp add: list_all_iff query_safe_facts)
  show ?thesis
    using assms(4)
    by (auto simp: URL_new_def pre split_first_absent [OF nohash] split_first_at [OF noq] enc Let_def
        split: option.splits prod.splits if_splits)
qed

lemma performInstall_this: "this (snd (performInstall req s)) = this s"
  by (simp add: performInstall_def performInstall_catch_def Let_def split: sum.splits prod.splits option.splits)

text \<open>
  Claim C4. For every request the reconstructed base URL is the protocol, \<^verbatim>\<open>://\<close> and the
  host, where the host is the \<^verbatim>\<open>x-forwarded-host\<close> header if present, else the
  \<^verbatim>\<open>host\<close> header if present, else \<^verbatim>\<open>localhost:3000\<close>, and the protocol is the
  \<^verbatim>\<open>x-forwarded-proto\<close> header if present, else \<^verbatim>\<open>http\<close> (\<open>spec_base_url\<close> writes
  this down as the claim words it). In particular the forwarded values win whatever the
  \<^verbatim>\<open>host\<close> header is, and with none of the three headers the base URL is
  \<^verbatim>\<open>http://localhost:3000\<close>.
\<close>

theorem getBaseUrl_precedence:
  "getBaseUrl req =
     spec_base_url (headers req ''x-forwarded-host'') (headers req ''host'')
       (headers req ''x-forwarded-proto'')
   \<and> (\<forall>H P. headers req ''x-forwarded-host'' = Some H \<and> headers req ''x-forwarded-proto'' = Some P
         \<longrightarrow> getBaseUrl req = P @ ''://'' @ H)
   \<and> (headers req ''x-forwarded-host'' = None \<and> headers req ''host'' = None
        \<and> headers req ''x-forwarded-proto'' = None
         \<longrightarrow> getBaseUrl req = ''http://localhost:3000'')"
  by (auto simp: getBaseUrl_def spec_base_url_def nullish_def Let_def split: option.splits)

theorem getBaseUrl_precedence_witness:
  "getBaseUrl \<lparr>searchParams = [], headers = [''x-forwarded-host'' \<mapsto> ''public.example.com'',
       ''x-forwarded-proto'' \<mapsto> ''https'', ''host'' \<mapsto> ''localhost:3000'']\<rparr>
     = ''https://public.example.com''
   \<and> getBaseUrl \<lparr>searchParams = [], headers = Map.empty\<rparr> = ''http://localhost:3000''"
  using getBaseUrl_precedence
      [of "\<lparr>searchParams = [], headers = [''x-forwarded-host'' \<mapsto> ''public.example.com'',
            ''x-forwarded-proto'' \<mapsto> ''https'', ''host'' \<mapsto> ''localhost:3000'']\<rparr>"]
    getBaseUrl_precedence [of "\<lparr>searchParams = [], headers = Map.empty\<rparr>"]
  by (simp add: spec_base_url_def)

text \<open>
  Claim C10. Host and protocol are chosen independently: without \<^verbatim>\<open>x-forwarded-host\<close>,
  with \<^verbatim>\<open>host\<close> header \<open>H\<close> and \<^verbatim>\<open>x-forwarded-proto\<close> header \<open>P\<close> the base URL is
  \<open>P://H\<close>; with \<^verbatim>\<open>x-forwarded-host\<close> header \<open>H\<close> and no \<^verbatim>\<open>x-forwarded-proto\<close> it
  is \<open>http://H\<close>.
\<close>

theorem getBaseUrl_independent:
  "(headers req ''x-forwarded-host'' = None \<and> headers req ''host'' = Some H
      \<and> headers req ''x-forwarded-proto'' = Some P
     \<longrightarrow> getBaseUrl req = P @ ''://'' @ H)
   \<and> (headers req ''x-forwarded-host'' = Some H \<and> headers req ''x-forwarded-proto'' = None
     \<longrightarrow> getBaseUrl req = ''http://'' @ H)"
  by (simp add: getBaseUrl_def nullish_def)

theorem getBaseUrl_independent_witness:
  "getBaseUrl \<lparr>searchParams = [], headers = [''host'' \<mapsto> ''shop.example.com'',
       ''x-forwarded-proto'' \<mapsto> ''https'']\<rparr> = ''https://shop.example.com''
   \<and> getBaseUrl \<lparr>searchParams = [], headers = [''x-forwarded-host'' \<mapsto> ''public.example.com'']\<rparr>
       = ''http://public.example.com''"
  using getBaseUrl_independent
      [of "\<lparr>searchParams = [], headers = [''host'' \<mapsto> ''shop.example.com'',
            ''x-forwarded-proto'' \<mapsto> ''https'']\<rparr>" "''shop.example.com''" "''https''"]
    getBaseUrl_independent
      [of "\<lparr>searchParams = [], headers = [''x-forwarded-host'' \<mapsto> ''public.example.com'']\<rparr>"
          "''public.example.com''"]
  by simp

lemma execute_calls_append: "execute_calls (a @ b) = execute_calls a @ execute_calls b"
  by (induction a rule: execute_calls.induct) simp_all

lemma getOAuthParams_present:
  assumes "searchParams_get (searchParams req) ''code'' = Some c" and "c \<noteq> []"
    and "searchParams_get (searchParams req) ''context'' = Some x" and "x \<noteq> []"
  shows "getOAuthParams req = Inr (c, x, nullish (searchParams_get (searchParams req) ''scope'') [])"
  using assms by (simp add: getOAuthParams_def nullish_def Let_def)

lemma getOAuthParams_missing:
  assumes "nullish (searchParams_get (searchParams req) ''code'') [] = []
           \<or> nullish (searchParams_get (searchParams req) ''context'') [] = []"
  shows "getOAuthParams req = Inl new_MissingOAuthParamsError"
  using assms by (auto simp add: getOAuthParams_def Let_def)

lemma performInstall_valid:
  assumes "getOAuthParams req = Inr (c, x, sc)"
  shows "performInstall req s =
     (let params = \<lparr>p_code = c, p_context = x, p_scope = sc, p_redirectUri = redirectUri (this s)\<rparr>;
          s1 = s\<lparr>world := snd (installApp (this s) params (world s)),
                trace := trace s @ [Execute params]\<rparr>
      in case fst (installApp (this s) params (world s)) of
           Some err \<Rightarrow> performInstall_catch err s1
         | None \<Rightarrow> (\<lparr>r_status = success, r_context = Some x, r_errorCode = None\<rparr>, s1))"
  using assms by (simp add: performInstall_def Let_def split: prod.splits option.splits)

lemma performInstall_invalid:
  assumes "getOAuthParams req = Inl err"
  shows "performInstall req s = performInstall_catch err s"
  using assms by (simp add: performInstall_def)

text \<open>
  Claim C1. For every request whose query string has a non-empty \<^verbatim>\<open>code\<close> and a non-empty
  \<^verbatim>\<open>context\<close>, the handler made by \<^verbatim>\<open>create\<close> calls \<^verbatim>\<open>installApp.execute\<close>
  exactly once: the calls after the run are the calls before it plus one, whose argument
  holds the two query values, the \<^verbatim>\<open>scope\<close> value or the empty string when it is absent,
  and the configured \<^verbatim>\<open>redirectUri\<close>; the outside world is the one this single call
  leaves. This holds whether the use case completes or throws.
\<close>

theorem handle_invokes_execute_once:
  assumes "searchParams_get (searchParams req) ''code'' = Some c" and "c \<noteq> []"
    and "searchParams_get (searchParams req) ''context'' = Some x" and "x \<noteq> []"
  shows "let params = \<lparr>p_code = c, p_context = x,
                        p_scope = (case searchParams_get (searchParams req) ''scope'' of
                                     None \<Rightarrow> [] | Some sc \<Rightarrow> sc),
                        p_redirectUri = cfg_redirectUri config\<rparr>;
             s' = snd (create config req w tr)
         in execute_calls (trace s') = execute_calls tr @ [params]
            \<and> world s' = snd (cfg_installApp config params w)"
proof -
  let ?s = "\<lparr>this = InstallController_constructor config, world = w, trace = tr\<rparr>"
  have p: "getOAuthParams req = Inr (c, x, nullish (searchParams_get (searchParams req) ''scope'') [])"
    using assms by (rule getOAuthParams_present)
  have s': "snd (create config req w tr) = snd (performInstall req ?s)"
    by (simp add: create_def handle_def split: prod.splits)
  show ?thesis
    unfolding s' performInstall_valid [OF p]
    by (simp add: Let_def performInstall_catch_def execute_calls_append nullish_def
        InstallController_constructor_def split: option.splits)
qed

theorem handle_invokes_execute_once_witness:
  "execute_calls (trace (snd (create example_config example_request 0 []))) =
     [\<lparr>p_code = ''abc123'', p_context = ''stores/xyz'', p_scope = ''store_v2_products'',
       p_redirectUri = ''https://app.example.com/auth''\<rparr>]
   \<and> world (snd (create example_config example_request 0 [])) = 1"
  using handle_invokes_execute_once
      [of example_request "''abc123''" "''stores/xyz''" example_config 0 "[]"]
  by (simp add: example_request_def example_config_def example_installApp_def
      searchParams_get_def Let_def)

lemma buildRedirectResponse_Returns:
  assumes "buildRedirectResponse c req out = Returns r"
  shows "URL_new ((if r_status out = success then successPath c else errorPath c)
                   @ ''?'' @ URLSearchParams_toString (redirect_search out)) (getBaseUrl req)
           = Returns (redirect_url r) \<and> status r = 307"
  using assms
  by (auto simp: buildRedirectResponse_def Let_def NextResponse_redirect_def split: completion.splits)

lemma handle_fst: "fst (handle req s) = buildRedirectResponse (this s) req (fst (performInstall req s))"
  using performInstall_this [of req s]
  by (cases "performInstall req s") (simp add: handle_def)

lemma handle_snd: "snd (handle req s) = snd (performInstall req s)"
  by (simp add: handle_def split: prod.splits)

lemma urlencoded_status: "urlencoded_string ''status'' = ''status''"
  and urlencoded_error: "urlencoded_string ''error'' = ''error''"
  and urlencoded_success: "urlencoded_string ''success'' = ''success''"
  and urlencoded_code: "urlencoded_string ''code'' = ''code''"
  and urlencoded_context: "urlencoded_string ''context'' = ''context''"
  and urlencoded_missing_params: "urlencoded_string ''missing_params'' = ''missing_params''"
  and urlencoded_token: "urlencoded_string ''token_exchange_failed'' = ''token_exchange_failed''"
  and urlencoded_unknown: "urlencoded_string ''unknown'' = ''unknown''"
  by (simp_all add: urlencoded_string_def urlencoded_byte_def urlencoded_keep_def char_class_defs)

lemmas urlencoded_literals = urlencoded_status urlencoded_error urlencoded_success urlencoded_code
  urlencoded_context urlencoded_missing_params urlencoded_token urlencoded_unknown

lemma toString_safe: "list_all query_safe (URLSearchParams_toString ps)"
proof (induction ps rule: induct_list012)
  case 1
  show ?case by (simp add: URLSearchParams_toString_def)
next
  case (2 p)
  have "query_safe CHR ''=''"
    by (simp add: query_safe_def)
  then show ?case
    by (cases p) (simp add: URLSearchParams_toString_def urlencoded_string_safe)
next
  case (3 p p' ps)
  have "query_safe CHR ''&''" "query_safe CHR ''=''"
    by (simp_all add: query_safe_def)
  with 3 show ?case
    by (cases p) (simp add: URLSearchParams_toString_def urlencoded_string_safe)
qed

lemma toString_status_nonempty: "URLSearchParams_toString ((''status'', v) # ps) \<noteq> []"
  by (cases ps) (simp_all add: URLSearchParams_toString_def urlencoded_status)

lemma redirect_search_nonempty: "URLSearchParams_toString (redirect_search out) \<noteq> []"
  by (simp add: redirect_search_def toString_status_nonempty)

lemma handle_Returns_status:
  assumes "fst (handle req s) = Returns r"
  shows "status r = 307"
  using assms buildRedirectResponse_Returns unfolding handle_fst by blast

lemma handle_Returns_query:
  assumes "fst (handle req s) = Returns r"
    and "is_path (if r_status (fst (performInstall req s)) = success
                  then successPath (this s) else errorPath (this s))"
  shows "url_query (redirect_url r)
           = Some (URLSearchParams_toString (redirect_search (fst (performInstall req s))))
         \<and> url_fragment (redirect_url r) = None"
proof -
  let ?out = "fst (performInstall req s)"
  let ?p = "if r_status ?out = success then successPath (this s) else errorPath (this s)"
  have u: "URL_new (?p @ ''?'' @ URLSearchParams_toString (redirect_search ?out)) (getBaseUrl req)
             = Returns (redirect_url r)"
    using assms(1) buildRedirectResponse_Returns unfolding handle_fst by blast
  show ?thesis
    using assms(2) redirect_search_nonempty toString_safe u by (rule URL_new_query)
qed

text \<open>
  A base URL without a scheme makes the URL constructor throw, and \<^verbatim>\<open>handle\<close> with it,
  whatever the request asks for and whatever the use case does.
\<close>

lemma handle_throws_without_scheme:
  assumes "parse_scheme (url_preprocess (getBaseUrl req)) = None"
  shows "fst (handle req s) = Throws invalid_url_error"
  using assms by (simp add: handle_fst buildRedirectResponse_def URL_new_def)

text \<open>
  What holds on every request in which \<^verbatim>\<open>code\<close> or \<^verbatim>\<open>context\<close> is absent or empty:
  the use case is not called (no call is added and the outside world is untouched) and the
  search parameters built for the redirect are \<^verbatim>\<open>status=error\<close> and
  \<^verbatim>\<open>code=missing_params\<close>; and where \<^verbatim>\<open>handle\<close> answers and the configured error
  path is a path (no \<^verbatim>\<open>?\<close>, no \<^verbatim>\<open>#\<close>), the query of the redirect URL is
  \<^verbatim>\<open>status=error&code=missing_params\<close>.
\<close>

lemma missing_params_never_invokes:
  assumes "searchParams_get (searchParams req) ''code'' = None
           \<or> searchParams_get (searchParams req) ''code'' = Some []
           \<or> searchParams_get (searchParams req) ''context'' = None
           \<or> searchParams_get (searchParams req) ''context'' = Some []"
  shows "execute_calls (trace (snd (handle req s))) = execute_calls (trace s)
         \<and> world (snd (handle req s)) = world s
         \<and> redirect_search (fst (performInstall req s))
             = [(''status'', ''error''), (''code'', ''missing_params'')]
         \<and> (is_path (errorPath (this s)) \<longrightarrow>
              (\<forall>r. fst (handle req s) = Returns r \<longrightarrow>
                 url_query (redirect_url r) = Some ''status=error&code=missing_params''))"
proof -
  have m: "getOAuthParams req = Inl new_MissingOAuthParamsError"
    using assms by (intro getOAuthParams_missing) (auto simp: nullish_def)
  have p: "performInstall req s = performInstall_catch new_MissingOAuthParamsError s"
    using m by (rule performInstall_invalid)
  have c: "mapErrorToCode new_MissingOAuthParamsError = ''missing_params''"
    by (simp add: mapErrorToCode_def instanceof_def new_MissingOAuthParamsError_def)
  have search: "redirect_search (fst (performInstall req s))
                  = [(''status'', ''error''), (''code'', ''missing_params'')]"
    by (simp add: p performInstall_catch_def c redirect_search_def spread_if_truthy_def truthy_def
        InstallStatus_string_def)
  have str: "URLSearchParams_toString [(''status'', ''error''), (''code'', ''missing_params'')]
               = ''status=error&code=missing_params''"
    by (simp add: URLSearchParams_toString_def urlencoded_literals)
  have "execute_calls (trace (snd (handle req s))) = execute_calls (trace s)"
    by (simp add: handle_snd p performInstall_catch_def execute_calls_append)
  moreover have "world (snd (handle req s)) = world s"
    by (simp add: handle_snd p performInstall_catch_def)
  moreover have "url_query (redirect_url r) = Some ''status=error&code=missing_params''"
    if "is_path (errorPath (this s))" "fst (handle req s) = Returns r" for r
  proof -
    have "r_status (fst (performInstall req s)) = error"
      by (simp add: p performInstall_catch_def)
    then show ?thesis
      using handle_Returns_query [OF that(2)] that(1) by (simp add: search str)
  qed
  ultimately show ?thesis using search by blast
qed


lemmas eval_defs =
  create_def handle_def performInstall_def performInstall_catch_def getOAuthParams_def
  mapErrorToCode_def instanceof_def new_MissingOAuthParamsError_def nullish_def
  searchParams_get_def buildRedirectResponse_def redirect_search_def spread_if_truthy_def
  truthy_def InstallStatus_string_def getBaseUrl_def InstallController_constructor_def
  URLSearchParams_toString_def urlencoded_string_def urlencoded_byte_def urlencoded_keep_def
  percent_encode_byte_def hex_digit_def char_class_defs
  URL_new_def url_preprocess_def c0_control_or_space_def ascii_tab_or_newline_def
  parse_scheme_def ascii_alpha_def scheme_char_def ascii_lowercase_def split_first_def
  plain_host_def plain_domain_def plain_ipv4_def canonical_octet_def plain_label_def
  plain_path_def path_punctuation_def decimal_value_def digit_value_def
  default_port_def percent_encode_with_def special_query_percent_encode_def
  fragment_percent_encode_def c0_control_percent_encode_def NextResponse_redirect_def
  location_def href_def Let_def

lemma example_missing_response:
  "fst (handle example_missing_request example_sys) =
     Returns \<lparr>status = 307,
              redirect_url = \<lparr>url_scheme = ''http'', url_host = ''shop.example.com'', url_port = None,
                              url_pathname = ''/auth/result'',
                              url_query = Some ''status=error&code=missing_params'',
                              url_fragment = None\<rparr>\<rparr>"
  by (simp add: example_missing_request_def example_sys_def example_config_def
      example_installApp_def eval_defs)

lemma missing_params_never_invokes_example:
  "searchParams_get (searchParams example_missing_request) ''code'' = None
   \<and> is_path (errorPath (this example_sys))
   \<and> execute_calls (trace (snd (handle example_missing_request example_sys))) = []
   \<and> (\<exists>r. fst (handle example_missing_request example_sys) = Returns r
          \<and> url_query (redirect_url r) = Some ''status=error&code=missing_params'')"
  using missing_params_never_invokes [of example_missing_request example_sys]
    example_missing_response
  by (simp add: example_missing_request_def example_sys_def searchParams_get_def is_path_def
      example_config_def InstallController_constructor_def nullish_def)


text \<open>
  Claim C2, evaluated where it fails. A request without \<^verbatim>\<open>code\<close> and \<^verbatim>\<open>context\<close>,
  with a \<^verbatim>\<open>host\<close> header and the header \<^verbatim>\<open>x-forwarded-proto: https,http\<close>: the use
  case is not called and the search parameters \<^verbatim>\<open>status=error\<close> and
  \<^verbatim>\<open>code=missing_params\<close> are built, but the base URL
  \<^verbatim>\<open>https,http://shop.example.com\<close> has no scheme, the URL constructor throws, and
  \<^verbatim>\<open>handle\<close> answers no redirect that could carry them.
\<close>

theorem missing_params_handle_throws:
  "searchParams_get (searchParams example_missing_proxied_request) ''code'' = None
   \<and> searchParams_get (searchParams example_missing_proxied_request) ''context'' = None
   \<and> getBaseUrl example_missing_proxied_request = ''https,http://shop.example.com''
   \<and> execute_calls (trace (snd (handle example_missing_proxied_request example_sys))) = []
   \<and> redirect_search (fst (performInstall example_missing_proxied_request example_sys))
       = [(''status'', ''error''), (''code'', ''missing_params'')]
   \<and> fst (handle example_missing_proxied_request example_sys) = Throws invalid_url_error"
  by (simp add: example_missing_proxied_request_def example_sys_def example_config_def
      example_installApp_def eval_defs)

lemma mapErrorToCode_cases:
  "mapErrorToCode err = ''missing_params'' \<or> mapErrorToCode err = ''token_exchange_failed''
   \<or> mapErrorToCode err = ''unknown''"
  by (simp add: mapErrorToCode_def)

lemma performInstall_thrown:
  assumes "getOAuthParams req = Inr (c, x, sc)"
    and "fst (installApp (this s)
               \<lparr>p_code = c, p_context = x, p_scope = sc, p_redirectUri = redirectUri (this s)\<rparr>
               (world s)) = Some err"
  shows "fst (performInstall req s)
           = \<lparr>r_status = error, r_context = None, r_errorCode = Some (mapErrorToCode err)\<rparr>"
  using assms(2) by (simp add: performInstall_valid [OF assms(1)] Let_def performInstall_catch_def)

lemma performInstall_completed:
  assumes "getOAuthParams req = Inr (c, x, sc)"
    and "fst (installApp (this s)
               \<lparr>p_code = c, p_context = x, p_scope = sc, p_redirectUri = redirectUri (this s)\<rparr>
               (world s)) = None"
  shows "fst (performInstall req s) = \<lparr>r_status = success, r_context = Some x, r_errorCode = None\<rparr>"
  using assms(2) by (simp add: performInstall_valid [OF assms(1)] Let_def)

lemma redirect_search_error:
  "redirect_search \<lparr>r_status = error, r_context = None, r_errorCode = Some (mapErrorToCode err)\<rparr>
     = [(''status'', ''error''), (''code'', mapErrorToCode err)]"
  using mapErrorToCode_cases [of err]
  by (auto simp: redirect_search_def spread_if_truthy_def truthy_def InstallStatus_string_def)

lemma redirect_search_success:
  "x \<noteq> [] \<Longrightarrow>
   redirect_search \<lparr>r_status = success, r_context = Some x, r_errorCode = None\<rparr>
     = [(''status'', ''success''), (''context'', x)]"
  by (simp add: redirect_search_def spread_if_truthy_def truthy_def InstallStatus_string_def)

lemma buildRedirectResponse_error_path:
  assumes "errorPath c = errorPath c'"
  shows "buildRedirectResponse c req \<lparr>r_status = error, r_context = None, r_errorCode = k\<rparr>
         = buildRedirectResponse c' req \<lparr>r_status = error, r_context = None, r_errorCode = k\<rparr>"
  using assms by (simp add: buildRedirectResponse_def)

text \<open>
  Claim C3. The classification of thrown values is total: for every thrown value
  \<^verbatim>\<open>mapErrorToCode\<close> answers one of the three strings, \<^verbatim>\<open>missing_params\<close> for an
  instance of the missing-parameters error, \<^verbatim>\<open>token_exchange_failed\<close> for an instance of
  the token-exchange error that is not one of the former, and \<^verbatim>\<open>unknown\<close> for every other
  value. Nothing else of the thrown value reaches the response: when the use case throws, the
  search parameters of the redirect are the status and that code, and two runs on the same
  request with the same error path, in which the use case throws values of the same code,
  answer the same.
\<close>

theorem mapErrorToCode_total_no_leak:
  "(mapErrorToCode err = ''missing_params'' \<or> mapErrorToCode err = ''token_exchange_failed''
      \<or> mapErrorToCode err = ''unknown'')
   \<and> (instanceof err MissingOAuthParamsError \<longrightarrow> mapErrorToCode err = ''missing_params'')
   \<and> (\<not> instanceof err MissingOAuthParamsError \<and> instanceof err BigCommerceTokenExchangeError
        \<longrightarrow> mapErrorToCode err = ''token_exchange_failed'')
   \<and> (\<not> instanceof err MissingOAuthParamsError \<and> \<not> instanceof err BigCommerceTokenExchangeError
        \<longrightarrow> mapErrorToCode err = ''unknown'')
   \<and> (getOAuthParams req = Inr (c, x, sc)
       \<and> fst (installApp (this s)
                \<lparr>p_code = c, p_context = x, p_scope = sc, p_redirectUri = redirectUri (this s)\<rparr>
                (world s)) = Some err
       \<and> fst (installApp (this s')
                \<lparr>p_code = c, p_context = x, p_scope = sc, p_redirectUri = redirectUri (this s')\<rparr>
                (world s')) = Some err'
       \<and> mapErrorToCode err = mapErrorToCode err'
       \<and> errorPath (this s) = errorPath (this s')
       \<longrightarrow> redirect_search (fst (performInstall req s))
             = [(''status'', ''error''), (''code'', mapErrorToCode err)]
           \<and> fst (handle req s) = fst (handle req s'))"
proof (intro conjI impI)
  show "mapErrorToCode err = ''missing_params'' \<or> mapErrorToCode err = ''token_exchange_failed''
      \<or> mapErrorToCode err = ''unknown''"
    by (rule mapErrorToCode_cases)
next
  assume "instanceof err MissingOAuthParamsError"
  then show "mapErrorToCode err = ''missing_params''"
    by (simp add: mapErrorToCode_def)
next
  assume "\<not> instanceof err MissingOAuthParamsError \<and> instanceof err BigCommerceTokenExchangeError"
  then show "mapErrorToCode err = ''token_exchange_failed''"
    by (simp add: mapErrorToCode_def)
next
  assume "\<not> instanceof err MissingOAuthParamsError \<and> \<not> instanceof err BigCommerceTokenExchangeError"
  then show "mapErrorToCode err = ''unknown''"
    by (simp add: mapErrorToCode_def)
next
  assume a: "getOAuthParams req = Inr (c, x, sc)
       \<and> fst (installApp (this s)
                \<lparr>p_code = c, p_context = x, p_scope = sc, p_redirectUri = redirectUri (this s)\<rparr>
                (world s)) = Some err
       \<and> fst (installApp (this s')
                \<lparr>p_code = c, p_context = x, p_scope = sc, p_redirectUri = redirectUri (this s')\<rparr>
                (world s')) = Some err'
       \<and> mapErrorToCode err = mapErrorToCode err'
       \<and> errorPath (this s) = errorPath (this s')"
  have o: "fst (performInstall req s)
             = \<lparr>r_status = error, r_context = None, r_errorCode = Some (mapErrorToCode err)\<rparr>"
    using a performInstall_thrown by blast
  show "redirect_search (fst (performInstall req s))
          = [(''status'', ''error''), (''code'', mapErrorToCode err)]"
    unfolding o by (rule redirect_search_error)
next
  assume a: "getOAuthParams req = Inr (c, x, sc)
       \<and> fst (installApp (this s)
                \<lparr>p_code = c, p_context = x, p_scope = sc, p_redirectUri = redirectUri (this s)\<rparr>
                (world s)) = Some err
       \<and> fst (installApp (this s')
                \<lparr>p_code = c, p_context = x, p_scope = sc, p_redirectUri = redirectUri (this s')\<rparr>
                (world s')) = Some err'
       \<and> mapErrorToCode err = mapErrorToCode err'
       \<and> errorPath (this s) = errorPath (this s')"
  have o: "fst (performInstall req s)
             = \<lparr>r_status = error, r_context = None, r_errorCode = Some (mapErrorToCode err)\<rparr>"
    using a performInstall_thrown by blast
  have "fst (performInstall req s')
             = \<lparr>r_status = error, r_context = None, r_errorCode = Some (mapErrorToCode err')\<rparr>"
    using a performInstall_thrown by blast
  then have o': "fst (performInstall req s')
             = \<lparr>r_status = error, r_context = None, r_errorCode = Some (mapErrorToCode err)\<rparr>"
    using a by simp
  have q: "errorPath (this s) = errorPath (this s')"
    using a by simp
  show "fst (handle req s) = fst (handle req s')"
    unfolding handle_fst o o' using q by (rule buildRedirectResponse_error_path)
qed


theorem mapErrorToCode_total_no_leak_witness:
  "mapErrorToCode (example_token_error ''invalid_grant: code expired'') = ''token_exchange_failed''
   \<and> redirect_search (fst (performInstall example_request
          (example_failing_sys ''invalid_grant: code expired'')))
         = [(''status'', ''error''), (''code'', ''token_exchange_failed'')]
   \<and> fst (handle example_request (example_failing_sys ''invalid_grant: code expired''))
       = fst (handle example_request (example_failing_sys ''HTTP 401 client secret rejected''))"
  using mapErrorToCode_total_no_leak
      [of "example_token_error ''invalid_grant: code expired''" example_request
          "''abc123''" "''stores/xyz''" "''store_v2_products''"
          "example_failing_sys ''invalid_grant: code expired''"
          "example_failing_sys ''HTTP 401 client secret rejected''"
          "example_token_error ''HTTP 401 client secret rejected''"]
  by (simp add: example_token_error_def example_request_def example_failing_sys_def
      example_failing_installApp_def example_config_def InstallController_constructor_def
      getOAuthParams_def searchParams_get_def nullish_def mapErrorToCode_def instanceof_def)

lemma getOAuthParams_Inr:
  assumes "getOAuthParams req = Inr (c, x, sc)"
  shows "x = nullish (searchParams_get (searchParams req) ''context'') [] \<and> x \<noteq> []"
  using assms by (auto simp: getOAuthParams_def Let_def split: if_splits)

lemma getOAuthParams_Inl:
  assumes "getOAuthParams req = Inl err"
  shows "err = new_MissingOAuthParamsError"
  using assms by (auto simp: getOAuthParams_def Let_def split: if_splits)

lemma performInstall_outcome:
  "(\<exists>x. x = nullish (searchParams_get (searchParams req) ''context'') [] \<and> x \<noteq> []
        \<and> fst (performInstall req s) = \<lparr>r_status = success, r_context = Some x, r_errorCode = None\<rparr>)
   \<or> (\<exists>err. fst (performInstall req s)
          = \<lparr>r_status = error, r_context = None, r_errorCode = Some (mapErrorToCode err)\<rparr>)"
proof (cases "getOAuthParams req")
  case (Inl err)
  then show ?thesis
    by (auto simp: performInstall_invalid performInstall_catch_def)
next
  case (Inr t)
  obtain c x sc where t: "t = (c, x, sc)"
    by (cases t) auto
  have p: "getOAuthParams req = Inr (c, x, sc)"
    using Inr t by simp
  show ?thesis
  proof (cases "fst (installApp (this s)
               \<lparr>p_code = c, p_context = x, p_scope = sc, p_redirectUri = redirectUri (this s)\<rparr>
               (world s))")
    case None
    then show ?thesis
      using performInstall_completed [OF p] getOAuthParams_Inr [OF p] by auto
  next
    case (Some err)
    then show ?thesis
      using performInstall_thrown [OF p] by blast
  qed
qed

text \<open>
  What holds on every request, whatever the use case does: the search parameters that
  \<^verbatim>\<open>handle\<close> builds for the redirect are either \<^verbatim>\<open>status=success\<close> followed by
  \<^verbatim>\<open>context\<close>, set to the (non-empty) \<^verbatim>\<open>context\<close> value of the request, or
  \<^verbatim>\<open>status=error\<close> followed by \<^verbatim>\<open>code\<close>, set to one of \<^verbatim>\<open>missing_params\<close>,
  \<^verbatim>\<open>token_exchange_failed\<close>, \<^verbatim>\<open>unknown\<close>: the status and exactly one of the two. Where
  \<^verbatim>\<open>handle\<close> answers and the configured paths are paths (no \<^verbatim>\<open>?\<close>, no \<^verbatim>\<open>#\<close>),
  the query of the redirect URL is the serialisation of exactly these parameters, and the URL
  has no fragment.
\<close>

lemma redirect_status_and_exactly_one:
  "(redirect_search (fst (performInstall req s))
      = [(''status'', ''success''),
         (''context'', nullish (searchParams_get (searchParams req) ''context'') [])]
      \<and> nullish (searchParams_get (searchParams req) ''context'') [] \<noteq> []
    \<or> redirect_search (fst (performInstall req s))
         = [(''status'', ''error''), (''code'', ''missing_params'')]
    \<or> redirect_search (fst (performInstall req s))
         = [(''status'', ''error''), (''code'', ''token_exchange_failed'')]
    \<or> redirect_search (fst (performInstall req s))
         = [(''status'', ''error''), (''code'', ''unknown'')])
   \<and> (is_path (successPath (this s)) \<and> is_path (errorPath (this s)) \<longrightarrow>
        (\<forall>r. fst (handle req s) = Returns r \<longrightarrow>
           url_query (redirect_url r)
             = Some (URLSearchParams_toString (redirect_search (fst (performInstall req s))))
           \<and> url_fragment (redirect_url r) = None))"
proof -
  have shape: "redirect_search (fst (performInstall req s))
      = [(''status'', ''success''),
         (''context'', nullish (searchParams_get (searchParams req) ''context'') [])]
      \<and> nullish (searchParams_get (searchParams req) ''context'') [] \<noteq> []
    \<or> redirect_search (fst (performInstall req s))
         = [(''status'', ''error''), (''code'', ''missing_params'')]
    \<or> redirect_search (fst (performInstall req s))
         = [(''status'', ''error''), (''code'', ''token_exchange_failed'')]
    \<or> redirect_search (fst (performInstall req s))
         = [(''status'', ''error''), (''code'', ''unknown'')]"
    using performInstall_outcome [of req s]
  proof (elim disjE exE conjE)
    fix x
    assume "x = nullish (searchParams_get (searchParams req) ''context'') []" "x \<noteq> []"
      "fst (performInstall req s) = \<lparr>r_status = success, r_context = Some x, r_errorCode = None\<rparr>"
    then show ?thesis
      using redirect_search_success [of x] by simp
  next
    fix err
    assume "fst (performInstall req s)
          = \<lparr>r_status = error, r_context = None, r_errorCode = Some (mapErrorToCode err)\<rparr>"
    then show ?thesis
      using redirect_search_error [of err] mapErrorToCode_cases [of err] by auto
  qed
  have url: "url_query (redirect_url r)
             = Some (URLSearchParams_toString (redirect_search (fst (performInstall req s))))
           \<and> url_fragment (redirect_url r) = None"
    if "is_path (successPath (this s)) \<and> is_path (errorPath (this s))"
      and "fst (handle req s) = Returns r" for r
    using that handle_Returns_query [of req s r] by simp
  show ?thesis
    using shape url by blast
qed


lemma example_success_response:
  "fst (handle example_request example_sys) =
     Returns \<lparr>status = 307,
              redirect_url = \<lparr>url_scheme = ''https'', url_host = ''public.example.com'',
                              url_port = None, url_pathname = ''/auth/result'',
                              url_query = Some ''status=success&context=stores%2Fxyz'',
                              url_fragment = None\<rparr>\<rparr>"
  by (simp add: example_request_def example_sys_def example_config_def
      example_installApp_def eval_defs)

lemma redirect_status_and_exactly_one_example:
  "is_path (successPath (this example_sys)) \<and> is_path (errorPath (this example_sys))
   \<and> (\<exists>r. fst (handle example_request example_sys) = Returns r
          \<and> url_query (redirect_url r) = Some ''status=success&context=stores%2Fxyz''
          \<and> url_fragment (redirect_url r) = None)"
  using redirect_status_and_exactly_one [of example_request example_sys]
    example_success_response
  by (simp add: is_path_def example_sys_def example_config_def InstallController_constructor_def
      nullish_def)

text \<open>
  Claim C5, evaluated where it fails. A request with a valid \<^verbatim>\<open>code\<close> and
  \<^verbatim>\<open>context\<close>, a \<^verbatim>\<open>host\<close> header and the header \<^verbatim>\<open>x-forwarded-proto: https,http\<close>,
  handled with a use case that throws the token-exchange error: the outcome is an error with
  the search parameters \<^verbatim>\<open>status=error\<close> and \<^verbatim>\<open>code=token_exchange_failed\<close>, but the
  URL constructor throws on the base URL \<^verbatim>\<open>https,http://shop.example.com\<close>, so
  \<^verbatim>\<open>handle\<close> builds no redirect URL at all, with neither a \<^verbatim>\<open>status\<close> nor a
  \<^verbatim>\<open>code\<close> nor a \<^verbatim>\<open>context\<close> parameter.
\<close>

theorem redirect_url_not_built:
  "getOAuthParams example_proxied_request = Inr (''abc123'', ''stores/xyz'', [])
   \<and> redirect_search
         (fst (performInstall example_proxied_request (example_failing_sys ''invalid_grant'')))
       = [(''status'', ''error''), (''code'', ''token_exchange_failed'')]
   \<and> fst (handle example_proxied_request (example_failing_sys ''invalid_grant''))
       = Throws invalid_url_error"
  by (simp add: example_proxied_request_def example_failing_sys_def example_config_def
      example_failing_installApp_def example_token_error_def eval_defs)

text \<open>
  Claim C6, evaluated where it fails. A request with a valid \<^verbatim>\<open>code\<close> and
  \<^verbatim>\<open>context\<close>, a \<^verbatim>\<open>host\<close> header and the header \<^verbatim>\<open>x-forwarded-proto: https,http\<close>
  (the list a chain of two proxies leaves): the use case is called and completes, the base URL
  becomes \<^verbatim>\<open>https,http://shop.example.com\<close>, which has no scheme, and the URL constructor's
  \<^verbatim>\<open>TypeError\<close> leaves \<^verbatim>\<open>handle\<close>, outside the \<^verbatim>\<open>try\<close> of \<^verbatim>\<open>performInstall\<close>.
\<close>

theorem handle_throws_on_invalid_base_url:
  "getBaseUrl example_proxied_request = ''https,http://shop.example.com''
   \<and> fst (handle example_proxied_request example_sys) = Throws invalid_url_error
   \<and> execute_calls (trace (snd (handle example_proxied_request example_sys)))
       = [\<lparr>p_code = ''abc123'', p_context = ''stores/xyz'', p_scope = [],
           p_redirectUri = ''https://app.example.com/auth''\<rparr>]"
  by (simp add: example_proxied_request_def example_sys_def example_config_def
      example_installApp_def eval_defs)

text \<open>
  Claim C7. A request whose query parameters are \<^verbatim>\<open>code=abc123\<close>,
  \<^verbatim>\<open>context=stores/xyz\<close> and \<^verbatim>\<open>scope=store_v2_products\<close>, with the headers
  \<^verbatim>\<open>x-forwarded-host: public.example.com\<close> and \<^verbatim>\<open>x-forwarded-proto: https\<close>, handled with
  the default success and error paths by a use case that completes, is answered with a
  redirect (status 307) to exactly
  \<^verbatim>\<open>https://public.example.com/auth/result?status=success&context=stores%2Fxyz\<close>.
\<close>

theorem example_redirect_location:
  assumes "searchParams req = [(''code'', ''abc123''), (''context'', ''stores/xyz''),
                               (''scope'', ''store_v2_products'')]"
    and "headers req ''x-forwarded-host'' = Some ''public.example.com''"
    and "headers req ''x-forwarded-proto'' = Some ''https''"
    and "cfg_successPath config = None" and "cfg_errorPath config = None"
    and "fst (cfg_installApp config
               \<lparr>p_code = ''abc123'', p_context = ''stores/xyz'', p_scope = ''store_v2_products'',
                p_redirectUri = cfg_redirectUri config\<rparr> w) = None"
  shows "\<exists>r. fst (create config req w tr) = Returns r \<and> status r = 307
           \<and> location r
               = ''https://public.example.com/auth/result?status=success&context=stores%2Fxyz''"
proof -
  let ?s = "\<lparr>this = InstallController_constructor config, world = w, trace = tr\<rparr>"
  have p: "getOAuthParams req = Inr (''abc123'', ''stores/xyz'', ''store_v2_products'')"
    using assms(1) by (simp add: getOAuthParams_def searchParams_get_def nullish_def)
  have "fst (installApp (this ?s)
               \<lparr>p_code = ''abc123'', p_context = ''stores/xyz'', p_scope = ''store_v2_products'',
                p_redirectUri = redirectUri (this ?s)\<rparr> (world ?s)) = None"
    using assms(6) by (simp add: InstallController_constructor_def)
  then have o: "fst (performInstall req ?s)
             = \<lparr>r_status = success, r_context = Some ''stores/xyz'', r_errorCode = None\<rparr>"
    using p performInstall_completed by blast
  have b: "getBaseUrl req = ''https://public.example.com''"
    using assms(2,3) by (simp add: getBaseUrl_def nullish_def)
  have q: "URLSearchParams_toString
             (redirect_search \<lparr>r_status = success, r_context = Some ''stores/xyz'', r_errorCode = None\<rparr>)
           = ''status=success&context=stores%2Fxyz''"
    by (simp add: redirect_search_def spread_if_truthy_def truthy_def InstallStatus_string_def
        URLSearchParams_toString_def urlencoded_string_def urlencoded_byte_def urlencoded_keep_def
        percent_encode_byte_def hex_digit_def char_class_defs)
  have u: "URL_new ''/auth/result?status=success&context=stores%2Fxyz'' ''https://public.example.com''
           = Returns \<lparr>url_scheme = ''https'', url_host = ''public.example.com'',
                      url_port = None, url_pathname = ''/auth/result'',
                      url_query = Some ''status=success&context=stores%2Fxyz'',
                      url_fragment = None\<rparr>"
    by (simp add: eval_defs)
  have "fst (create config req w tr)
        = Returns \<lparr>status = 307,
             redirect_url = \<lparr>url_scheme = ''https'', url_host = ''public.example.com'',
                      url_port = None, url_pathname = ''/auth/result'',
                      url_query = Some ''status=success&context=stores%2Fxyz'',
                      url_fragment = None\<rparr>\<rparr>"
    unfolding create_def handle_fst o
    using assms(4) by (simp add: buildRedirectResponse_def b q u InstallController_constructor_def
        nullish_def NextResponse_redirect_def)
  then show ?thesis
    by (simp add: location_def href_def)
qed

theorem example_redirect_location_witness:
  "\<exists>r. fst (create example_config example_request 0 []) = Returns r \<and> status r = 307
       \<and> location r
           = ''https://public.example.com/auth/result?status=success&context=stores%2Fxyz''"
  using example_redirect_location [of example_request example_config 0 "[]"]
  by (simp add: example_request_def example_config_def example_installApp_def)

lemma performInstall_frame:
  "snd (performInstall req s)
     = s\<lparr>world := world (snd (performInstall req s)), trace := trace (snd (performInstall req s))\<rparr>"
  by (simp add: performInstall_def performInstall_catch_def Let_def
      split: sum.splits prod.splits option.splits)

lemma performInstall_trace_irrelevant:
  "fst (performInstall req (s\<lparr>trace := t\<rparr>)) = fst (performInstall req s)"
  by (simp add: performInstall_def performInstall_catch_def Let_def
      split: sum.splits prod.splits option.splits)

lemma handle_trace_irrelevant: "fst (handle req (s\<lparr>trace := t\<rparr>)) = fst (handle req s)"
  by (simp add: handle_fst performInstall_trace_irrelevant)

text \<open>
  Claim C9. After construction the four fields of the controller are the configured use case
  and redirect URI and the two paths, each defaulting to \<^verbatim>\<open>/auth/result\<close> when absent.
  A call of \<^verbatim>\<open>handle\<close> leaves the controller as it was, so the handler made by
  \<^verbatim>\<open>create\<close> still holds the constructed controller after a call; and nothing is carried
  from one call to the next except through the outside world of the use case: the answer to a
  second request is the answer it would get from the initial state in that outside world.
\<close>

theorem controller_fields_unchanged:
  "installApp (InstallController_constructor config) = cfg_installApp config
   \<and> redirectUri (InstallController_constructor config) = cfg_redirectUri config
   \<and> successPath (InstallController_constructor config)
       = (case cfg_successPath config of None \<Rightarrow> ''/auth/result'' | Some p \<Rightarrow> p)
   \<and> errorPath (InstallController_constructor config)
       = (case cfg_errorPath config of None \<Rightarrow> ''/auth/result'' | Some p \<Rightarrow> p)
   \<and> this (snd (handle req s)) = this s
   \<and> this (snd (create config req w tr)) = InstallController_constructor config
   \<and> fst (handle req' (snd (handle req s)))
       = fst (handle req' (s\<lparr>world := world (snd (handle req s))\<rparr>))"
proof -
  have c: "installApp (InstallController_constructor config) = cfg_installApp config
   \<and> redirectUri (InstallController_constructor config) = cfg_redirectUri config
   \<and> successPath (InstallController_constructor config)
       = (case cfg_successPath config of None \<Rightarrow> ''/auth/result'' | Some p \<Rightarrow> p)
   \<and> errorPath (InstallController_constructor config)
       = (case cfg_errorPath config of None \<Rightarrow> ''/auth/result'' | Some p \<Rightarrow> p)"
    by (simp add: InstallController_constructor_def nullish_def)
  have t: "this (snd (handle req s)) = this s"
    by (simp add: handle_snd performInstall_this)
  have k: "this (snd (create config req w tr)) = InstallController_constructor config"
    unfolding create_def by (simp add: handle_snd performInstall_this)
  have "snd (handle req s)
          = (s\<lparr>world := world (snd (handle req s))\<rparr>)\<lparr>trace := trace (snd (handle req s))\<rparr>"
    unfolding handle_snd using performInstall_frame [of req s] by simp
  then have "fst (handle req' (snd (handle req s)))
       = fst (handle req' (s\<lparr>world := world (snd (handle req s))\<rparr>))"
    using handle_trace_irrelevant by metis
  then show ?thesis
    using c t k by simp
qed

lemma url_preprocess_clean:
  assumes "list_all url_clean s"
  shows "url_preprocess s = s"
proof -
  have a: "dropWhile c0_control_or_space t = t" if "list_all url_clean t" for t
    using that by (cases t) (simp_all add: url_clean_def)
  have "list_all url_clean (rev s)"
    using assms by (simp add: list_all_iff)
  then have "rev (dropWhile c0_control_or_space (rev (dropWhile c0_control_or_space s))) = s"
    using a [OF assms] a [of "rev s"] by simp
  moreover have "filter (\<lambda>c. \<not> ascii_tab_or_newline c) s = s"
    using assms by (induction s) (simp_all add: url_clean_def)
  ultimately show ?thesis
    by (simp add: url_preprocess_def)
qed

lemma split_on_chars:
  assumes "list_all (list_all P) (split_on c s)"
  shows "list_all (\<lambda>x. P x \<or> x = c) s"
  using assms
proof (induction s)
  case Nil
  then show ?case by simp
next
  case (Cons x xs)
  then show ?case
    by (cases "split_on c xs") (auto split: if_splits)
qed

lemma plain_label_chars:
  "plain_label l \<Longrightarrow> list_all (\<lambda>x. x \<in> set (ascii_lower_alpha @ ascii_digits @ ''-'')) l"
  by (cases l) (simp_all add: plain_label_def)

lemma canonical_octet_chars:
  "canonical_octet l \<Longrightarrow> list_all (\<lambda>x. x \<in> set (ascii_lower_alpha @ ascii_digits @ ''-'')) l"
  by (auto simp: canonical_octet_def list_all_iff)

lemma plain_host_chars:
  assumes "plain_host h"
  shows "list_all (\<lambda>x. x \<in> set (ascii_lower_alpha @ ascii_digits @ ''-.'')) h"
proof -
  have "list_all (list_all (\<lambda>x. x \<in> set (ascii_lower_alpha @ ascii_digits @ ''-'')))
          (split_on CHR ''.'' h)"
    using assms plain_label_chars canonical_octet_chars
    by (auto simp: plain_host_def plain_domain_def plain_ipv4_def list_all_iff)
  then have "list_all (\<lambda>x. x \<in> set (ascii_lower_alpha @ ascii_digits @ ''-'') \<or> x = CHR ''.'') h"
    by (rule split_on_chars)
  then show ?thesis
    by (simp add: list_all_iff) blast
qed

lemma host_char_facts:
  assumes "ascii_lowercase c \<in> set (ascii_lower_alpha @ ascii_digits @ ''-.'')"
  shows "url_clean c" and "c \<noteq> CHR '':''"
proof -
  have "c \<in> set ascii_upper_alpha \<or> c \<in> set (ascii_lower_alpha @ ascii_digits @ ''-.'')"
    using assms by (auto simp: ascii_lowercase_def split: if_splits)
  then show "url_clean c" and "c \<noteq> CHR '':''"
    by (auto simp: url_clean_def char_class_defs c0_control_or_space_def ascii_tab_or_newline_def)
qed

lemma path_char_facts:
  assumes "ascii_alphanumeric c \<or> c \<in> set path_punctuation"
  shows "url_clean c" and "c \<noteq> CHR ''?''" and "c \<noteq> CHR ''#''"
  using assms
  by (auto simp: url_clean_def char_class_defs path_punctuation_def c0_control_or_space_def
      ascii_tab_or_newline_def)

lemma plain_path_chars:
  assumes "plain_path p"
  shows "list_all url_clean p" and "is_path p"
proof -
  have a: "list_all (\<lambda>x. ascii_alphanumeric x \<or> x \<in> set path_punctuation) p"
    using assms by (cases p) (simp_all add: plain_path_def)
  then show "list_all url_clean p"
    using path_char_facts(1) by (simp add: list_all_iff)
  show "is_path p"
    using a path_char_facts(2,3) by (auto simp: is_path_def list_all_iff)
qed

lemma URL_new_plain:
  assumes "scheme = ''http'' \<or> scheme = ''https''" and "plain_host (map ascii_lowercase h)"
    and "plain_path p" and "q \<noteq> []" and "list_all query_safe q"
  shows "URL_new (p @ ''?'' @ q) (scheme @ ''://'' @ h)
           = Returns \<lparr>url_scheme = scheme, url_host = map ascii_lowercase h, url_port = None,
                      url_pathname = p, url_query = Some q, url_fragment = None\<rparr>"
proof -
  have "list_all (\<lambda>x. x \<in> set (ascii_lower_alpha @ ascii_digits @ ''-.''))
          (map ascii_lowercase h)"
    using assms(2) by (rule plain_host_chars)
  then have hc: "\<forall>c \<in> set h. ascii_lowercase c \<in> set (ascii_lower_alpha @ ascii_digits @ ''-.'')"
    by (simp add: list_all_iff)
  have hclean: "list_all url_clean h" and nocolon: "CHR '':'' \<notin> set h"
    using hc host_char_facts by (auto simp: list_all_iff)
  have "list_all url_clean (scheme @ ''://'' @ h)"
    using assms(1) hclean
    by (auto simp: url_clean_def c0_control_or_space_def ascii_tab_or_newline_def)
  then have base: "url_preprocess (scheme @ ''://'' @ h) = scheme @ ''://'' @ h"
    by (rule url_preprocess_clean)
  have ps: "parse_scheme (scheme @ ''://'' @ h) = Some (scheme, ''//'' @ h)"
    using assms(1)
    by (auto simp: parse_scheme_def ascii_alpha_def scheme_char_def ascii_lowercase_def
        char_class_defs)
  have pc: "list_all url_clean p" and ip: "is_path p"
    using assms(3) by (rule plain_path_chars)+
  have "dropWhile c0_control_or_space p = p"
    using pc by (cases p) (simp_all add: url_clean_def)
  moreover have "filter (\<lambda>c. \<not> ascii_tab_or_newline c) p = p"
    using pc by (induction p) (simp_all add: url_clean_def)
  ultimately have pre: "url_preprocess (p @ CHR ''?'' # q) = p @ CHR ''?'' # q"
    using url_preprocess_query [OF assms(4,5), of p] by simp
  have nohash: "CHR ''#'' \<notin> set (p @ CHR ''?'' # q)"
    using ip assms(5) query_safe_facts(3) by (auto simp: is_path_def list_all_iff)
  have noq: "CHR ''?'' \<notin> set p"
    using ip by (simp add: is_path_def)
  have enc: "percent_encode_with special_query_percent_encode q = q"
    using assms(5) by (intro percent_encode_with_id) (simp add: list_all_iff query_safe_facts)
  have base': "url_preprocess (scheme @ CHR '':'' # CHR ''/'' # CHR ''/'' # h)
                 = scheme @ CHR '':'' # CHR ''/'' # CHR ''/'' # h"
    using base by simp
  have ps': "parse_scheme (scheme @ CHR '':'' # CHR ''/'' # CHR ''/'' # h)
               = Some (scheme, CHR ''/'' # CHR ''/'' # h)"
    using ps by simp
  show ?thesis
    using assms(1,2,3)
    by (simp add: URL_new_def base' ps' pre split_first_absent [OF nohash] split_first_at [OF noq]
        split_first_absent [OF nocolon] enc)
qed

text \<open>
  Where \<^verbatim>\<open>handle\<close> is sure to answer: the base URL is \<^verbatim>\<open>http\<close> or \<^verbatim>\<open>https\<close> with a
  host that is plain once lower-cased and no port, and the configured paths are plain. The
  answer is a redirect with status 307 to the base URL (host in lower case), the path chosen
  by the outcome and the serialised search parameters.
\<close>

lemma handle_returns_plain:
  assumes "getBaseUrl req = scheme @ ''://'' @ h"
    and "scheme = ''http'' \<or> scheme = ''https''" and "plain_host (map ascii_lowercase h)"
    and "plain_path (successPath (this s))" and "plain_path (errorPath (this s))"
  shows "\<exists>r. fst (handle req s) = Returns r \<and> status r = 307
           \<and> location r
               = scheme @ ''://'' @ map ascii_lowercase h
                 @ (if r_status (fst (performInstall req s)) = success
                    then successPath (this s) else errorPath (this s))
                 @ ''?'' @ URLSearchParams_toString (redirect_search (fst (performInstall req s)))"
proof -
  let ?out = "fst (performInstall req s)"
  let ?p = "if r_status ?out = success then successPath (this s) else errorPath (this s)"
  let ?q = "URLSearchParams_toString (redirect_search ?out)"
  have "plain_path ?p"
    using assms(4,5) by simp
  then have "URL_new (?p @ ''?'' @ ?q) (scheme @ ''://'' @ h)
           = Returns \<lparr>url_scheme = scheme, url_host = map ascii_lowercase h, url_port = None,
                      url_pathname = ?p, url_query = Some ?q, url_fragment = None\<rparr>"
    using assms(2,3) redirect_search_nonempty toString_safe by (intro URL_new_plain)
  then show ?thesis
    unfolding handle_fst
    by (simp add: buildRedirectResponse_def assms(1) NextResponse_redirect_def location_def
        href_def Let_def)
qed

section \<open>The directory copy: properties\<close>





lemma mkdir_in_directory:
  assumes "fs (q @ [x]) = None" and "fs q = Some (Dir es)"
  shows "mkdirSync_recursive (q @ [x]) fs = Inr (fs(q \<mapsto> Dir (es @ [x]), q @ [x] \<mapsto> Dir []))"
  using assms
  by (simp add: mkdirSync_recursive_def ensure_dirs.simps [of "q @ [x]"] ensure_dirs.simps [of q])

lemmas copy_defs =
  existsSync_def readdirSync_def statSync_isDirectory_def copyFileSync_def








lemma copy_below_source_unbounded:
  assumes "fs p = Some (Dir [f, d])" and "fs (p @ [f]) = Some (File a)"
    and "fs (p @ [d]) = Some (Dir [g])" and "fs (p @ [d, g]) = Some (File b)"
    and "\<forall>q. fs (p @ out # q) = None" and "out \<noteq> f" and "out \<noteq> d"
  shows "copyDirectory n p (p @ [out]) fs = None"
  using assms
proof (induction n arbitrary: fs p)
  case 0
  have fd: "f \<noteq> d"
    using "0.prems"(2,3) by auto
  have n: "fs (p @ [out]) = None" "fs (p @ [out, f]) = None"
    using "0.prems"(5) by simp_all
  show ?case
    using fd "0.prems"(6,7)
    by (simp add: copy_defs n "0.prems"(1-4) mkdir_in_directory butlast_append)
next
  case (Suc m)
  have fd: "f \<noteq> d"
    using Suc.prems(2,3) by auto
  have n: "fs (p @ [out]) = None" "fs (p @ [out, f]) = None" "fs (p @ [out, d]) = None"
      "fs (p @ [out, d, g]) = None"
    using Suc.prems(5) by simp_all
  let ?fs3 = "fs(p \<mapsto> Dir [f, d, out], p @ [out, f] \<mapsto> File a, p @ [out] \<mapsto> Dir [f, d],
                 p @ [out, d] \<mapsto> Dir [g], p @ [out, d, g] \<mapsto> File b)"
  have "copyDirectory m (p @ [out]) ((p @ [out]) @ [out]) ?fs3 = None"
  proof (rule Suc.IH)
    show "?fs3 (p @ [out]) = Some (Dir [f, d])"
      using fd Suc.prems(6,7) by simp
    show "?fs3 ((p @ [out]) @ [f]) = Some (File a)"
      using fd Suc.prems(6,7) by simp
    show "?fs3 ((p @ [out]) @ [d]) = Some (Dir [g])"
      using fd Suc.prems(6,7) by simp
    show "?fs3 ((p @ [out]) @ [d, g]) = Some (File b)"
      using fd Suc.prems(6,7) by simp
    show "\<forall>q. ?fs3 ((p @ [out]) @ out # q) = None"
      using Suc.prems(5,6,7) by simp
    show "out \<noteq> f" "out \<noteq> d"
      using Suc.prems(6,7) by simp_all
  qed
  then have ih: "copyDirectory m (p @ [out]) (p @ [out, out]) ?fs3 = None"
    by (simp del: copyDirectory.simps)
  show ?case
    using fd Suc.prems(6,7)
    by (simp del: copyDirectory.simps
        add: copyDirectory.simps [of "Suc m" p] copyDirectory.simps [of m "p @ [d]"]
          copy_defs n Suc.prems(1-4) mkdir_in_directory
          mkdir_in_directory [of _ "p @ [out]", simplified] butlast_append ih)
qed

text \<open>
  Copying the source into a new directory of its own: the loop finds the directory it has
  just made and copies it into itself, one level deeper each time, whatever the fuel.
\<close>

lemma copyDirectory_into_source_unbounded:
  "copyDirectory n [''tmp'', ''src''] [''tmp'', ''src'', ''out''] test_fs = None"
proof -
  have "\<forall>q. test_fs ([''tmp'', ''src''] @ ''out'' # q) = None"
    by (simp add: test_fs_def)
  then show ?thesis
    using copy_below_source_unbounded
      [of test_fs "[''tmp'', ''src'']" "''file.txt''" "''nested''" "''root file''" "''inner.txt''"
          "''nested file''" "''out''" n]
    by (simp add: test_fs_def)
qed

end
